theory Spec2Isabelle
  imports Complex_Main "HOL-Library.Mapping" "HOL-Library.AList_Mapping" "HOL-Library.Sublist"
begin

section \<open>Python values used by optinet\<close>

text \<open>
  The exceptions that the modelled functions can raise.  Python integers are \<open>int\<close>;
  the floating-point quantities delivered by the hydraulic engine (pressures, velocities,
  lengths) are idealised as \<open>real\<close>, so sums and products are exact and rounding is not
  part of the model.  A \<open>dict\<close> is a \<open>mapping\<close>.
\<close>

datatype error = IndexError | KeyError | AssertionError | TypeError | AttributeError

text \<open>\<open>xs[i]\<close> on a list: a negative index counts from the end, anything else out of
  range raises \<open>IndexError\<close>.\<close>

definition list_getitem :: "'a list \<Rightarrow> int \<Rightarrow> error + 'a" where
  "list_getitem xs i =
     (if 0 \<le> i \<and> i < int (length xs) then Inr (xs ! nat i)
      else if - int (length xs) \<le> i \<and> i < 0 then Inr (xs ! nat (int (length xs) + i))
      else Inl IndexError)"

text \<open>\<open>d[k]\<close> on a dict raises \<open>KeyError\<close> for a missing key.\<close>

definition dict_getitem :: "('k, 'v) mapping \<Rightarrow> 'k \<Rightarrow> error + 'v" where
  "dict_getitem d k = (case Mapping.lookup d k of None \<Rightarrow> Inl KeyError | Some v \<Rightarrow> Inr v)"

text \<open>A list comprehension \<open>[f(x) for x in xs]\<close>: elements are evaluated left to right and
  the first exception ends the evaluation.\<close>

fun list_comp :: "('a \<Rightarrow> error + 'b) \<Rightarrow> 'a list \<Rightarrow> error + 'b list" where
  "list_comp f [] = Inr []"
| "list_comp f (x # xs) =
     (case f x of
        Inl e \<Rightarrow> Inl e
      | Inr y \<Rightarrow> (case list_comp f xs of Inl e \<Rightarrow> Inl e | Inr ys \<Rightarrow> Inr (y # ys)))"

section \<open>objfun.py: the diameter catalog\<close>

text \<open>
  \<^verbatim>\<open>keys = sorted(pipe_price.keys()); d = [keys[x] for x in diam_indexes]; return d\<close>
\<close>

definition index2diam :: "int list \<Rightarrow> (int, 'v) mapping \<Rightarrow> error + int list" where
  "index2diam diam_indexes pipe_price =
     (let keys = Mapping.ordered_keys pipe_price
      in list_comp (\<lambda>x. list_getitem keys x) diam_indexes)"

section \<open>lib.epamodule: the interface to the hydraulic engine\<close>

text \<open>
  The EPANET toolkit wrapper is an external collaborator.  It is a parameter of the model: a
  record of the operations that hydraulic.py calls, acting on an engine state of an
  arbitrary type \<open>'e\<close>, together with the three constants of the module whose values
  the sources do not give.  Queries do not change the engine state.  Failures of the
  engine itself are not modelled.
\<close>

record 'e epamodule =
  ENopen :: "string \<Rightarrow> string \<Rightarrow> 'e \<Rightarrow> 'e"
  ENopenH :: "'e \<Rightarrow> 'e"
  ENcloseH :: "'e \<Rightarrow> 'e"
  ENclose :: "'e \<Rightarrow> 'e"
  ENgetcount :: "int \<Rightarrow> 'e \<Rightarrow> nat"
  ENsetlinkvalue :: "nat \<Rightarrow> nat \<Rightarrow> real \<Rightarrow> 'e \<Rightarrow> 'e"
  ENinitH :: "int \<Rightarrow> 'e \<Rightarrow> 'e"
  ENrunH :: "'e \<Rightarrow> 'e"
  ENnextH :: "'e \<Rightarrow> int \<times> 'e"
  ENgetnodeid :: "nat \<Rightarrow> 'e \<Rightarrow> string"
  ENgetnodevalue :: "nat \<Rightarrow> nat \<Rightarrow> 'e \<Rightarrow> real"
  ENgetnodetype :: "nat \<Rightarrow> 'e \<Rightarrow> int"
  ENgetlinkid :: "nat \<Rightarrow> 'e \<Rightarrow> string"
  ENgetlinkvalue :: "nat \<Rightarrow> nat \<Rightarrow> 'e \<Rightarrow> real"
  EN_NOSAVE :: int
  EN_NODECOUNT :: int
  EN_LINKCOUNT :: int

text \<open>The parameter codes, as listed in the docstring of \<open>Network.simulate\<close>.\<close>

definition EN_ELEVATION :: nat where "EN_ELEVATION = 0"
definition EN_BASEDEMAND :: nat where "EN_BASEDEMAND = 1"
definition EN_PATTERN :: nat where "EN_PATTERN = 2"
definition EN_DEMAND :: nat where "EN_DEMAND = 9"
definition EN_HEAD :: nat where "EN_HEAD = 10"
definition EN_PRESSURE :: nat where "EN_PRESSURE = 11"
definition EN_QUALITY :: nat where "EN_QUALITY = 12"

definition EN_DIAMETER :: nat where "EN_DIAMETER = 0"
definition EN_LENGTH :: nat where "EN_LENGTH = 1"
definition EN_ROUGHNESS :: nat where "EN_ROUGHNESS = 2"
definition EN_MINORLOSS :: nat where "EN_MINORLOSS = 3"
definition EN_INITSTATUS :: nat where "EN_INITSTATUS = 4"
definition EN_INITSETTING :: nat where "EN_INITSETTING = 5"
definition EN_KBULK :: nat where "EN_KBULK = 6"
definition EN_KWALL :: nat where "EN_KWALL = 7"
definition EN_FLOW :: nat where "EN_FLOW = 8"
definition EN_VELOCITY :: nat where "EN_VELOCITY = 9"
definition EN_HEADLOSS :: nat where "EN_HEADLOSS = 10"
definition EN_STATUS :: nat where "EN_STATUS = 11"
definition EN_SETTING :: nat where "EN_SETTING = 12"
definition EN_ENERGY :: nat where "EN_ENERGY = 13"

section \<open>hydraulic.py: the Network class\<close>

text \<open>
  The attributes of a \<open>Network\<close> object.  \<open>links\<close> and \<open>nodes\<close> are \<open>None\<close> until
  \<open>initialize\<close> has run.  The attributes \<open>name\<close>, \<open>reserviors\<close>, \<open>coordinates\<close>,
  \<open>x_coordinates\<close> and \<open>y_coordinates\<close> are set to \<open>None\<close> by the constructor and never
  touched again; they are left out.  The inner dictionaries of \<open>node_values\<close> and
  \<open>link_values\<close> are kept as their items in insertion order.
\<close>

record network =
  path :: string
  inputfile :: string
  outputfile :: string
  links :: "nat option"
  nodes :: "nat option"
  node_values :: "(string, (string \<times> real) list) mapping"
  link_values :: "(string, (string \<times> real) list) mapping"
  nodeids :: "string list"
  sources :: "int list"
  pressure :: "real list"
  velocity :: "real list"
  lengths :: "real list"
  diameters :: "real list"
  flowrate :: "real list"

definition EXT_REPORT :: string where "EXT_REPORT = ''rpt''"

text \<open>\<open>__init__\<close>; \<open>filename[-4:]\<close> is the last four characters of the name (all of it when
  it is shorter).\<close>

definition Network :: "string \<Rightarrow> string \<Rightarrow> network" where
  "Network basepath filename =
     \<lparr> path = basepath, inputfile = filename,
       outputfile = drop (length filename - 4) filename @ ''.'' @ EXT_REPORT,
       links = None, nodes = None,
       node_values = Mapping.empty, link_values = Mapping.empty,
       nodeids = [], sources = [], pressure = [], velocity = [], lengths = [],
       diameters = [], flowrate = [] \<rparr>"

text \<open>What \<open>open_network\<close> sees of the outside: the regular files that exist, the lines
  printed so far, and the engine.\<close>

record 'e world =
  files :: "string set"
  stdout :: "string list"
  engine :: 'e

definition check_file :: "network \<Rightarrow> 'e world \<Rightarrow> bool" where
  "check_file self w \<longleftrightarrow> path self @ inputfile self \<in> files w"

definition open_network :: "'e epamodule \<Rightarrow> network \<Rightarrow> 'e world \<Rightarrow> (error + bool) \<times> 'e world" where
  "open_network em self w =
     (let fi = path self @ inputfile self;
          fo = path self @ outputfile self
      in if check_file self w
         then (Inr True, w\<lparr>engine := ENopenH em (ENopen em fi fo (engine w))\<rparr>)
         else (Inr True, w\<lparr>stdout := stdout w @ [''File: '' @ fi @ '' does not exist'']\<rparr>))"

definition close_network :: "'e epamodule \<Rightarrow> 'e \<Rightarrow> 'e" where
  "close_network em e = ENclose em (ENcloseH em e)"

definition initialize :: "'e epamodule \<Rightarrow> network \<Rightarrow> 'e \<Rightarrow> network" where
  "initialize em self e =
     self\<lparr>nodes := Some (ENgetcount em (EN_NODECOUNT em) e),
          links := Some (ENgetcount em (EN_LINKCOUNT em) e)\<rparr>"

text \<open>
  \<open>a is b\<close> on two integer objects that were created independently (here the result of
  \<open>len\<close> and a count read from the engine).  \<open>is\<close> compares object identity; CPython
  shares one object per value only for the small integers from \<open>-5\<close> to \<open>256\<close>, and
  creates a new object for every other result.
\<close>

definition py_is_int :: "int \<Rightarrow> int \<Rightarrow> bool" where
  "py_is_int a b \<longleftrightarrow> a = b \<and> - 5 \<le> a \<and> a \<le> 256"

text \<open>\<open>len(diameters) is self.links\<close>; no integer is \<open>None\<close>.\<close>

definition len_is_links :: "int list \<Rightarrow> network \<Rightarrow> bool" where
  "len_is_links ds self =
     (case links self of None \<Rightarrow> False | Some l \<Rightarrow> py_is_int (int (length ds)) (int l))"

text \<open>\<open>for i in range(self.links): em.ENsetlinkvalue(i+1, em.EN_DIAMETER, diameters[i])\<close>\<close>

fun set_diameters_loop :: "'e epamodule \<Rightarrow> int list \<Rightarrow> nat list \<Rightarrow> 'e \<Rightarrow> (error + unit) \<times> 'e" where
  "set_diameters_loop em ds [] e = (Inr (), e)"
| "set_diameters_loop em ds (i # rest) e =
     (case list_getitem ds (int i) of
        Inl err \<Rightarrow> (Inl err, e)
      | Inr d \<Rightarrow> set_diameters_loop em ds rest (ENsetlinkvalue em (i + 1) EN_DIAMETER (real_of_int d) e))"

definition change_diameters :: "'e epamodule \<Rightarrow> network \<Rightarrow> int list \<Rightarrow> 'e \<Rightarrow> (error + unit) \<times> 'e" where
  "change_diameters em self ds e =
     (if \<not> len_is_links ds self then (Inl AssertionError, e)
      else case links self of
             None \<Rightarrow> (Inl TypeError, e)
           | Some l \<Rightarrow> set_diameters_loop em ds [0..<l] e)"

text \<open>The body of the loop over the nodes in \<open>simulate\<close>, for the node with ordinal \<open>i+1\<close>.\<close>

definition node_row :: "'e epamodule \<Rightarrow> 'e \<Rightarrow> network \<Rightarrow> nat \<Rightarrow> network" where
  "node_row em e self i =
     (let node = i + 1;
          nid = ENgetnodeid em node e;
          p = ENgetnodevalue em node EN_PRESSURE e;
          t = ENgetnodetype em node e;
          values = [(''ELEVATION'', ENgetnodevalue em node EN_ELEVATION e),
                    (''BASEDEMAND'', ENgetnodevalue em node EN_BASEDEMAND e),
                    (''PATTERN'', ENgetnodevalue em node EN_PATTERN e),
                    (''DEMAND'', ENgetnodevalue em node EN_DEMAND e),
                    (''HEAD'', ENgetnodevalue em node EN_HEAD e),
                    (''PRESSURE'', ENgetnodevalue em node EN_PRESSURE e),
                    (''QUALITY'', ENgetnodevalue em node EN_QUALITY e)]
      in self\<lparr>nodeids := nodeids self @ [nid],
              pressure := pressure self @ [p],
              sources := sources self @ [t],
              node_values := Mapping.update nid values (node_values self)\<rparr>)"

text \<open>The body of the loop over the links in \<open>simulate\<close>, for the link with ordinal \<open>i+1\<close>.\<close>

definition link_row :: "'e epamodule \<Rightarrow> 'e \<Rightarrow> network \<Rightarrow> nat \<Rightarrow> network" where
  "link_row em e self i =
     (let link = i + 1;
          linkid = ENgetlinkid em link e;
          v = ENgetlinkvalue em link EN_VELOCITY e;
          l = ENgetlinkvalue em link EN_LENGTH e;
          d = ENgetlinkvalue em link EN_DIAMETER e;
          f = ENgetlinkvalue em link EN_FLOW e;
          values = [(''DIAMETER'', ENgetlinkvalue em link EN_DIAMETER e),
                    (''LENGTH'', ENgetlinkvalue em link EN_LENGTH e),
                    (''ROUGHNESS'', ENgetlinkvalue em link EN_ROUGHNESS e),
                    (''MINORLOSS'', ENgetlinkvalue em link EN_MINORLOSS e),
                    (''INITSTATUS'', ENgetlinkvalue em link EN_INITSTATUS e),
                    (''INITSETTING'', ENgetlinkvalue em link EN_INITSETTING e),
                    (''KBULK'', ENgetlinkvalue em link EN_KBULK e),
                    (''KWALL'', ENgetlinkvalue em link EN_KWALL e),
                    (''FLOW'', ENgetlinkvalue em link EN_FLOW e),
                    (''VELOCITY'', ENgetlinkvalue em link EN_VELOCITY e),
                    (''HEADLOSS'', ENgetlinkvalue em link EN_HEADLOSS e),
                    (''STATUS'', ENgetlinkvalue em link EN_STATUS e),
                    (''SETTING'', ENgetlinkvalue em link EN_SETTING e),
                    (''ENERGY'', ENgetlinkvalue em link EN_ENERGY e)]
      in self\<lparr>velocity := velocity self @ [v],
              lengths := lengths self @ [l],
              diameters := diameters self @ [d],
              flowrate := flowrate self @ [f],
              link_values := Mapping.update linkid values (link_values self)\<rparr>)"

text \<open>
  The \<open>while True\<close> loop of \<open>simulate\<close>: one hydraulic period per iteration, until
  \<open>ENnextH\<close> reports a step \<open>\<le> 0\<close>.  Whether it ends depends on the engine, so the result
  is an option: \<open>None\<close> is a run that never returns.  \<open>range(None)\<close> raises \<open>TypeError\<close>.
\<close>

partial_function (option) simulate_loop ::
  "'e epamodule \<Rightarrow> 'e \<Rightarrow> network \<Rightarrow> ((error + unit) \<times> 'e \<times> network) option" where
  "simulate_loop em e self =
     (let e1 = ENrunH em e
      in case nodes self of
           None \<Rightarrow> Some (Inl TypeError, e1, self)
         | Some n \<Rightarrow>
             (let self1 = foldl (node_row em e1) self [0..<n]
              in case links self1 of
                   None \<Rightarrow> Some (Inl TypeError, e1, self1)
                 | Some l \<Rightarrow>
                     (let self2 = foldl (link_row em e1) self1 [0..<l];
                          step = ENnextH em e1
                      in if fst step \<le> 0 then Some (Inr (), snd step, self2)
                         else simulate_loop em (snd step) self2)))"

definition simulate ::
  "'e epamodule \<Rightarrow> 'e \<Rightarrow> network \<Rightarrow>
     ((error + real list \<times> real list \<times> real list \<times> int list) \<times> 'e \<times> network) option" where
  "simulate em e self =
     (let e0 = ENinitH em (EN_NOSAVE em) e;
          self0 = self\<lparr>pressure := [], velocity := [], lengths := [], diameters := [],
                      sources := []\<rparr>
      in case simulate_loop em e0 self0 of
           None \<Rightarrow> None
         | Some (Inl err, e', self') \<Rightarrow> Some (Inl err, e', self')
         | Some (Inr u, e', self') \<Rightarrow>
             Some (Inr (pressure self', velocity self', lengths self', sources self'), e', self'))"

section \<open>objfun.py: the objective function\<close>

text \<open>\<open>kwargs.get(key, default)\<close>\<close>

definition kwargs_get :: "(string, 'a) mapping \<Rightarrow> string \<Rightarrow> 'a \<Rightarrow> 'a" where
  "kwargs_get kwargs k d = (case Mapping.lookup kwargs k of None \<Rightarrow> d | Some v \<Rightarrow> v)"

text \<open>The loop over the nodes: the penalty for pressure heads outside the bounds.\<close>

fun pressure_loop :: "network \<Rightarrow> real \<Rightarrow> real \<Rightarrow> real \<Rightarrow> nat list \<Rightarrow> real \<Rightarrow> error + real" where
  "pressure_loop network hmin hmax penalty [] pH = Inr pH"
| "pressure_loop network hmin hmax penalty (i # rest) pH =
     (case list_getitem (sources network) (int i) of
        Inl err \<Rightarrow> Inl err
      | Inr t \<Rightarrow>
          if t = 0 then
            (case list_getitem (pressure network) (int i) of
               Inl err \<Rightarrow> Inl err
             | Inr p \<Rightarrow>
                 pressure_loop network hmin hmax penalty rest
                   (if p < hmin \<or> p > hmax then pH + penalty else pH))
          else pressure_loop network hmin hmax penalty rest pH)"

text \<open>The loop over the links: the penalty for flow velocities outside the bounds.\<close>

fun velocity_loop :: "network \<Rightarrow> real \<Rightarrow> real \<Rightarrow> real \<Rightarrow> nat list \<Rightarrow> real \<Rightarrow> error + real" where
  "velocity_loop network vmin vmax penalty [] pV = Inr pV"
| "velocity_loop network vmin vmax penalty (i # rest) pV =
     (case list_getitem (velocity network) (int i) of
        Inl err \<Rightarrow> Inl err
      | Inr v \<Rightarrow>
          velocity_loop network vmin vmax penalty rest
            (if v < vmin \<or> v > vmax then pV + penalty else pV))"

text \<open>\<open>c = unit_prices[diameters[i]] * network.lengths[i] * pV * pH; cost += c\<close>\<close>

fun cost_loop ::
  "int list \<Rightarrow> network \<Rightarrow> (int, int) mapping \<Rightarrow> real \<Rightarrow> real \<Rightarrow> nat list \<Rightarrow> real \<Rightarrow> error + real" where
  "cost_loop ds network unit_prices pV pH [] cost = Inr cost"
| "cost_loop ds network unit_prices pV pH (i # rest) cost =
     (case list_getitem ds (int i) of
        Inl err \<Rightarrow> Inl err
      | Inr d \<Rightarrow>
          (case dict_getitem unit_prices d of
             Inl err \<Rightarrow> Inl err
           | Inr price \<Rightarrow>
               (case list_getitem (lengths network) (int i) of
                  Inl err \<Rightarrow> Inl err
                | Inr len \<Rightarrow>
                    cost_loop ds network unit_prices pV pH rest
                      (cost + real_of_int price * len * pV * pH))))"

text \<open>The part of \<open>network_cost\<close> after the simulation.\<close>

definition penalized_cost ::
  "int list \<Rightarrow> network \<Rightarrow> (int, int) mapping \<Rightarrow> (string, real) mapping \<Rightarrow> error + real" where
  "penalized_cost ds network unit_prices kwargs =
     (let hmin = kwargs_get kwargs ''hmin'' 30;
          hmax = kwargs_get kwargs ''hmax'' 100;
          vmin = kwargs_get kwargs ''vmin'' 0.25;
          vmax = kwargs_get kwargs ''vmax'' 2.50;
          penalty = kwargs_get kwargs ''penalty_step'' 1
      in case nodes network of
           None \<Rightarrow> Inl TypeError
         | Some n \<Rightarrow>
             (case pressure_loop network hmin hmax penalty [0..<n] 1 of
                Inl err \<Rightarrow> Inl err
              | Inr pH \<Rightarrow>
                  (case links network of
                     None \<Rightarrow> Inl TypeError
                   | Some l \<Rightarrow>
                       (case velocity_loop network vmin vmax penalty [0..<l] 1 of
                          Inl err \<Rightarrow> Inl err
                        | Inr pV \<Rightarrow>
                            cost_loop ds network unit_prices pV pH [0..<length ds] 0))))"

definition network_cost ::
  "'e epamodule \<Rightarrow> int list \<Rightarrow> network \<Rightarrow> (int, int) mapping \<Rightarrow> (string, real) mapping \<Rightarrow> 'e \<Rightarrow>
     ((error + real) \<times> 'e \<times> network) option" where
  "network_cost em ds network unit_prices kwargs e =
     (case change_diameters em network ds e of
        (Inl err, e1) \<Rightarrow> Some (Inl err, e1, network)
      | (Inr u, e1) \<Rightarrow>
          (case simulate em e1 network of
             None \<Rightarrow> None
           | Some (Inl err, e2, network2) \<Rightarrow> Some (Inl err, e2, network2)
           | Some (Inr arrays, e2, network2) \<Rightarrow>
               Some (penalized_cost ds network2 unit_prices kwargs, e2, network2)))"

text \<open>\<open>network_diameters\<close> returns the one-element tuple \<open>(cost,)\<close>; the model returns the
  cost.\<close>

definition network_diameters ::
  "'e epamodule \<Rightarrow> int list \<Rightarrow> network \<Rightarrow> (int, int) mapping \<Rightarrow> 'e \<Rightarrow>
     ((error + real) \<times> 'e \<times> network) option" where
  "network_diameters em diam_indexes network pipe_price e =
     (case index2diam diam_indexes pipe_price of
        Inl err \<Rightarrow> Some (Inl err, e, network)
      | Inr ds \<Rightarrow> network_cost em ds network pipe_price Mapping.empty e)"

section \<open>optinetd-deap.py: the multi-run driver\<close>

text \<open>
  One genetic-algorithm run (\<open>optimize_diameters\<close>) is carried out by the DEAP library on
  random numbers; it is a parameter of the driver: a step on the state \<open>'g\<close> of everything
  a run depends on, which raises or returns the hall of fame (its \<open>items\<close>), the final
  population and the log of statistics rows.  \<open>plot_convergence\<close>, which renders through
  matplotlib, is a parameter too, as are the formatted start time and the run time.
  Printing is left out.
\<close>

record individual =
  genome :: "int list"
  fitness :: real

record stat_row =
  gen :: nat
  nevals :: nat
  avg :: real
  std :: real
  stat_min :: real
  stat_max :: real

record tagged_row =
  row :: stat_row
  bestFit :: real

datatype report_line =
  Best_solution "individual option" | Best_fitness real | Run_time string

datatype content = Csv "tagged_row list" | Report "report_line list" | Figure

type_synonym filesystem = "(string, content) mapping"

type_synonym 'g ga_run =
  "'g \<Rightarrow> (error + individual list \<times> individual list \<times> stat_row list) \<times> 'g"

text \<open>The \<open>for i in range(execs)\<close> loop; \<open>best\<close> starts as \<open>None\<close> and \<open>stats\<close> as the empty
  data frame.\<close>

fun execs_loop ::
  "'g ga_run \<Rightarrow> nat list \<Rightarrow> individual option \<Rightarrow> tagged_row list \<Rightarrow> 'g \<Rightarrow>
     (error + individual option \<times> tagged_row list) \<times> 'g" where
  "execs_loop run [] best stats g = (Inr (best, stats), g)"
| "execs_loop run (i # rest) best stats g =
     (case run g of
        (Inl err, g1) \<Rightarrow> (Inl err, g1)
      | (Inr (b, p, r), g1) \<Rightarrow>
          (case list_getitem b 0 of
             Inl err \<Rightarrow> (Inl err, g1)
           | Inr b0 \<Rightarrow>
               (let best1 = (case best of
                               None \<Rightarrow> b0
                             | Some cur \<Rightarrow> if fitness b0 < fitness cur then b0 else cur);
                    df = map (\<lambda>r0. \<lparr>row = r0, bestFit = fitness best1\<rparr>) r
                in execs_loop run rest (Some best1) (stats @ df) g1)))"

text \<open>\<open>open(path, 'a')\<close> followed by writes: the lines are added to what the file holds.\<close>

definition append_report :: "string \<Rightarrow> report_line list \<Rightarrow> filesystem \<Rightarrow> filesystem" where
  "append_report name new fs =
     Mapping.update name
       (Report ((case Mapping.lookup fs name of Some (Report old) \<Rightarrow> old | _ \<Rightarrow> []) @ new)) fs"

definition optimize_diameters_execs ::
  "'g ga_run \<Rightarrow> (nat \<Rightarrow> nat \<Rightarrow> string \<Rightarrow> filesystem \<Rightarrow> (error + unit) \<times> filesystem) \<Rightarrow>
     string \<Rightarrow> string \<Rightarrow> string \<Rightarrow> nat \<Rightarrow> nat \<Rightarrow> 'g \<Rightarrow> filesystem \<Rightarrow>
     (error + individual) \<times> 'g \<times> filesystem" where
  "optimize_diameters_execs run plot_convergence start runtime dir generations execs g fs =
     (let stats_file = dir @ ''ga_dimen_'' @ start @ ''.csv'';
          sol_file = take (length stats_file - 4) stats_file @ ''.txt''
      in case execs_loop run [0..<execs] None [] g of
           (Inl err, g1) \<Rightarrow> (Inl err, g1, fs)
         | (Inr (best, stats), g1) \<Rightarrow>
             (let fs1 = Mapping.update stats_file (Csv stats) fs
              in case plot_convergence execs generations stats_file fs1 of
                   (Inl err, fs2) \<Rightarrow> (Inl err, g1, fs2)
                 | (Inr u, fs2) \<Rightarrow>
                     (case best of
                        None \<Rightarrow>
                          (Inl AttributeError, g1, append_report sol_file [Best_solution None] fs2)
                      | Some b \<Rightarrow>
                          (Inr b, g1,
                           append_report sol_file
                             [Best_solution (Some b), Best_fitness (fitness b), Run_time runtime]
                             fs2))))"

section \<open>Notions of the specification\<close>

text \<open>The number of non-source nodes among the first \<open>n\<close> whose pressure is strictly below
  \<open>hmin\<close> or strictly above \<open>hmax\<close>, and the number of pipes among the first \<open>l\<close> whose
  velocity is strictly below \<open>vmin\<close> or strictly above \<open>vmax\<close>.\<close>

definition pressure_violations :: "network \<Rightarrow> real \<Rightarrow> real \<Rightarrow> nat \<Rightarrow> nat" where
  "pressure_violations network hmin hmax n =
     length (filter (\<lambda>i. sources network ! i = 0 \<and>
                          (pressure network ! i < hmin \<or> pressure network ! i > hmax)) [0..<n])"

definition velocity_violations :: "network \<Rightarrow> real \<Rightarrow> real \<Rightarrow> nat \<Rightarrow> nat" where
  "velocity_violations network vmin vmax l =
     length (filter (\<lambda>i. velocity network ! i < vmin \<or> velocity network ! i > vmax) [0..<l])"

text \<open>The unit price of a diameter of the catalog, the raw material cost of an assignment,
  and the smallest unit price of the catalog.\<close>

definition unit_price :: "(int, int) mapping \<Rightarrow> int \<Rightarrow> real" where
  "unit_price unit_prices d = real_of_int (the (Mapping.lookup unit_prices d))"

definition material_cost :: "(int, int) mapping \<Rightarrow> int list \<Rightarrow> network \<Rightarrow> real" where
  "material_cost unit_prices ds network =
     (\<Sum>i < length ds. unit_price unit_prices (ds ! i) * lengths network ! i)"

definition min_unit_price :: "(int, int) mapping \<Rightarrow> real" where
  "min_unit_price unit_prices = Min (unit_price unit_prices ` Mapping.keys unit_prices)"

section \<open>A table-driven engine for concrete runs\<close>

text \<open>
  An engine with fixed node types, pressures, velocities and pipe lengths, which solves
  one hydraulic period.  Its state is the list of calls that opened a session and the
  diameters written so far.  Node \<open>i\<close> is called \<open>n\<dots>n\<close> and link \<open>i\<close> \<open>l\<dots>l\<close>
  (\<open>i\<close> letters).
\<close>

definition table_engine ::
  "int list \<Rightarrow> real list \<Rightarrow> real list \<Rightarrow> real list \<Rightarrow> (string list \<times> real list) epamodule" where
  "table_engine types pressures velocities lens =
     \<lparr> ENopen = (\<lambda>fi fo e. (fst e @ [''ENopen '' @ fi @ '' '' @ fo], snd e)),
       ENopenH = (\<lambda>e. (fst e @ [''ENopenH''], snd e)),
       ENcloseH = (\<lambda>e. e),
       ENclose = (\<lambda>e. e),
       ENgetcount = (\<lambda>code e. if code = 0 then length types else length lens),
       ENsetlinkvalue = (\<lambda>i code v e. (fst e, (snd e)[i - 1 := v])),
       ENinitH = (\<lambda>flag e. e),
       ENrunH = (\<lambda>e. e),
       ENnextH = (\<lambda>e. (0, e)),
       ENgetnodeid = (\<lambda>i e. replicate i CHR ''n''),
       ENgetnodevalue = (\<lambda>i code e. if code = EN_PRESSURE then pressures ! (i - 1) else 0),
       ENgetnodetype = (\<lambda>i e. types ! (i - 1)),
       ENgetlinkid = (\<lambda>i e. replicate i CHR ''l''),
       ENgetlinkvalue = (\<lambda>i code e.
          if code = EN_VELOCITY then velocities ! (i - 1)
          else if code = EN_LENGTH then lens ! (i - 1)
          else if code = EN_DIAMETER then snd e ! (i - 1)
          else 0),
       EN_NOSAVE = 0, EN_NODECOUNT = 0, EN_LINKCOUNT = 2 \<rparr>"

text \<open>A run of the genetic algorithm that completes the first time it is called and fails
  with a \<open>KeyError\<close> every time after, on a counter of calls; and a \<open>plot_convergence\<close>
  that draws nothing.\<close>

definition sample_individual :: individual where
  "sample_individual = \<lparr>genome = [0, 1], fitness = 5\<rparr>"

definition sample_row :: stat_row where
  "sample_row = \<lparr>gen = 0, nevals = 1, avg = 5, std = 0, stat_min = 5, stat_max = 5\<rparr>"

definition flaky_run :: "nat ga_run" where
  "flaky_run g =
     (if g = 0 then (Inr ([sample_individual], [sample_individual], [sample_row]), Suc g)
      else (Inl KeyError, Suc g))"

definition no_plot :: "nat \<Rightarrow> nat \<Rightarrow> string \<Rightarrow> filesystem \<Rightarrow> (error + unit) \<times> filesystem" where
  "no_plot runs gens file_stats fs = (Inr (), fs)"

section \<open>Facts about the Python prelude\<close>

lemma list_getitem_in_range:
  "0 \<le> i \<Longrightarrow> i < int (length xs) \<Longrightarrow> list_getitem xs i = Inr (xs ! nat i)"
  by (simp add: list_getitem_def)

lemma list_getitem_negative:
  "i < 0 \<Longrightarrow> - int (length xs) \<le> i \<Longrightarrow> list_getitem xs i = Inr (xs ! nat (int (length xs) + i))"
  by (simp add: list_getitem_def)

lemma list_getitem_error:
  "list_getitem xs i = Inl e \<longleftrightarrow> e = IndexError \<and> (i < - int (length xs) \<or> int (length xs) \<le> i)"
  by (auto simp: list_getitem_def Let_def)

lemma list_getitem_member: "list_getitem xs i = Inr y \<Longrightarrow> y \<in> set xs"
  by (auto simp: list_getitem_def Let_def split: if_splits)

lemma list_comp_Inr_nth:
  "list_comp f xs = Inr ys \<Longrightarrow>
     length ys = length xs \<and> (\<forall>p < length xs. f (xs ! p) = Inr (ys ! p))"
proof (induction xs arbitrary: ys)
  case Nil
  then show ?case by auto
next
  case (Cons x xs)
  then show ?case
    by (auto simp: All_less_Suc2 split: sum.splits)
qed

lemma list_comp_Inr_exists:
  "(\<forall>x \<in> set xs. \<exists>y. f x = Inr y) \<Longrightarrow> \<exists>ys. list_comp f xs = Inr ys"
  by (induction xs) (auto split: sum.splits)

lemma list_comp_Inl_iff:
  "(\<exists>e. list_comp f xs = Inl e) \<longleftrightarrow> (\<exists>x \<in> set xs. \<exists>e. f x = Inl e)"
  by (induction xs) (auto split: sum.splits)

lemma list_comp_Inl_error:
  "list_comp f xs = Inl e \<Longrightarrow> \<exists>x \<in> set xs. f x = Inl e"
  by (induction xs) (auto split: sum.splits)

lemma length_ordered_keys:
  "finite (Mapping.keys m) \<Longrightarrow> length (Mapping.ordered_keys m) = Mapping.size m"
  by (simp add: Mapping.ordered_keys_def Mapping.size_def)

section \<open>Facts about the simulation loop\<close>

text \<open>One pass over the nodes appends one row to the node arrays and leaves the link arrays
  and the counts alone; one pass over the links does the converse.\<close>

lemma node_row_fields:
  "nodeids (node_row em e self i) = nodeids self @ [ENgetnodeid em (i + 1) e]"
  "pressure (node_row em e self i) = pressure self @ [ENgetnodevalue em (i + 1) EN_PRESSURE e]"
  "sources (node_row em e self i) = sources self @ [ENgetnodetype em (i + 1) e]"
  "links (node_row em e self i) = links self"
  "nodes (node_row em e self i) = nodes self"
  "velocity (node_row em e self i) = velocity self"
  "lengths (node_row em e self i) = lengths self"
  "diameters (node_row em e self i) = diameters self"
  "flowrate (node_row em e self i) = flowrate self"
  by (simp_all add: node_row_def Let_def)

lemma link_row_fields:
  "velocity (link_row em e self i) = velocity self @ [ENgetlinkvalue em (i + 1) EN_VELOCITY e]"
  "lengths (link_row em e self i) = lengths self @ [ENgetlinkvalue em (i + 1) EN_LENGTH e]"
  "diameters (link_row em e self i) = diameters self @ [ENgetlinkvalue em (i + 1) EN_DIAMETER e]"
  "flowrate (link_row em e self i) = flowrate self @ [ENgetlinkvalue em (i + 1) EN_FLOW e]"
  "links (link_row em e self i) = links self"
  "nodes (link_row em e self i) = nodes self"
  "nodeids (link_row em e self i) = nodeids self"
  "pressure (link_row em e self i) = pressure self"
  "sources (link_row em e self i) = sources self"
  by (simp_all add: link_row_def Let_def)

lemma foldl_node_row:
  "nodeids (foldl (node_row em e) self js) = nodeids self @ map (\<lambda>i. ENgetnodeid em (i + 1) e) js"
  "pressure (foldl (node_row em e) self js) =
     pressure self @ map (\<lambda>i. ENgetnodevalue em (i + 1) EN_PRESSURE e) js"
  "sources (foldl (node_row em e) self js) = sources self @ map (\<lambda>i. ENgetnodetype em (i + 1) e) js"
  "links (foldl (node_row em e) self js) = links self"
  "nodes (foldl (node_row em e) self js) = nodes self"
  "velocity (foldl (node_row em e) self js) = velocity self"
  "lengths (foldl (node_row em e) self js) = lengths self"
  "diameters (foldl (node_row em e) self js) = diameters self"
  "flowrate (foldl (node_row em e) self js) = flowrate self"
  by (induction js arbitrary: self; simp add: node_row_fields)+

lemma foldl_link_row:
  "velocity (foldl (link_row em e) self js) =
     velocity self @ map (\<lambda>i. ENgetlinkvalue em (i + 1) EN_VELOCITY e) js"
  "lengths (foldl (link_row em e) self js) =
     lengths self @ map (\<lambda>i. ENgetlinkvalue em (i + 1) EN_LENGTH e) js"
  "diameters (foldl (link_row em e) self js) =
     diameters self @ map (\<lambda>i. ENgetlinkvalue em (i + 1) EN_DIAMETER e) js"
  "flowrate (foldl (link_row em e) self js) =
     flowrate self @ map (\<lambda>i. ENgetlinkvalue em (i + 1) EN_FLOW e) js"
  "links (foldl (link_row em e) self js) = links self"
  "nodes (foldl (link_row em e) self js) = nodes self"
  "nodeids (foldl (link_row em e) self js) = nodeids self"
  "pressure (foldl (link_row em e) self js) = pressure self"
  "sources (foldl (link_row em e) self js) = sources self"
  by (induction js arbitrary: self; simp add: link_row_fields)+


text \<open>
  A run of the loop that returns keeps the counts, keeps every row that the arrays held
  before, and, when it returns normally, has appended at least one row per node and per
  link: the loop body runs before the first test.
\<close>

lemma simulate_loop_rows:
  assumes "simulate_loop em e self = Some y"
  shows "nodes (snd (snd y)) = nodes self \<and> links (snd (snd y)) = links self
    \<and> prefix (nodeids self) (nodeids (snd (snd y)))
    \<and> prefix (flowrate self) (flowrate (snd (snd y)))
    \<and> prefix (pressure self) (pressure (snd (snd y)))
    \<and> prefix (sources self) (sources (snd (snd y)))
    \<and> prefix (velocity self) (velocity (snd (snd y)))
    \<and> prefix (lengths self) (lengths (snd (snd y)))
    \<and> prefix (diameters self) (diameters (snd (snd y)))
    \<and> (fst y = Inr () \<longrightarrow>
         (\<exists>n l. nodes self = Some n \<and> links self = Some l
            \<and> length (pressure self) + n \<le> length (pressure (snd (snd y)))
            \<and> length (sources self) + n \<le> length (sources (snd (snd y)))
            \<and> length (nodeids self) + n \<le> length (nodeids (snd (snd y)))
            \<and> length (velocity self) + l \<le> length (velocity (snd (snd y)))
            \<and> length (lengths self) + l \<le> length (lengths (snd (snd y)))
            \<and> length (diameters self) + l \<le> length (diameters (snd (snd y)))
            \<and> length (flowrate self) + l \<le> length (flowrate (snd (snd y)))))"
  using assms
proof (induction em e self y rule: simulate_loop.raw_induct [rotated 1, consumes 1])
  case (1 loop em e self y)
  show ?case
  proof (cases "nodes self")
    case None
    with 1(2) show ?thesis by (auto simp: Let_def)
  next
    case (Some n)
    let ?e1 = "ENrunH em e"
    let ?s1 = "foldl (node_row em ?e1) self [0..<n]"
    show ?thesis
    proof (cases "links self")
      case None
      with 1(2) Some show ?thesis by (auto simp: Let_def foldl_node_row)
    next
      case l: (Some l)
      let ?s2 = "foldl (link_row em ?e1) ?s1 [0..<l]"
      have s2: "nodes ?s2 = Some n" "links ?s2 = Some l"
        "nodeids ?s2 = nodeids self @ map (\<lambda>i. ENgetnodeid em (i + 1) ?e1) [0..<n]"
        "pressure ?s2 = pressure self @ map (\<lambda>i. ENgetnodevalue em (i + 1) EN_PRESSURE ?e1) [0..<n]"
        "sources ?s2 = sources self @ map (\<lambda>i. ENgetnodetype em (i + 1) ?e1) [0..<n]"
        "velocity ?s2 = velocity self @ map (\<lambda>i. ENgetlinkvalue em (i + 1) EN_VELOCITY ?e1) [0..<l]"
        "lengths ?s2 = lengths self @ map (\<lambda>i. ENgetlinkvalue em (i + 1) EN_LENGTH ?e1) [0..<l]"
        "diameters ?s2 = diameters self @ map (\<lambda>i. ENgetlinkvalue em (i + 1) EN_DIAMETER ?e1) [0..<l]"
        "flowrate ?s2 = flowrate self @ map (\<lambda>i. ENgetlinkvalue em (i + 1) EN_FLOW ?e1) [0..<l]"
        using Some l by (simp_all add: foldl_node_row foldl_link_row)
      show ?thesis
      proof (cases "fst (ENnextH em ?e1) \<le> 0")
        case True
        then have "y = (Inr (), snd (ENnextH em ?e1), ?s2)"
          using 1(2) Some l by (simp add: Let_def foldl_node_row)
        then show ?thesis using s2 Some l by simp
      next
        case False
        then have "loop em (snd (ENnextH em ?e1)) ?s2 = Some y"
          using 1(2) Some l by (simp add: Let_def foldl_node_row)
        from 1(1) [OF this] show ?thesis
          unfolding s2 using Some l by (auto dest: append_prefixD)
      qed
    qed
  qed
qed

section \<open>Facts about pushing the diameters\<close>

text \<open>The assertion of \<open>change_diameters\<close> passes exactly when the list has as many
  diameters as the network has links and that number is at most 256.\<close>

lemma len_is_links_iff:
  "len_is_links ds self \<longleftrightarrow> links self = Some (length ds) \<and> length ds \<le> 256"
  by (auto simp: len_is_links_def py_is_int_def split: option.splits)

lemma set_diameters_loop_in_range:
  "\<forall>i \<in> set js. i < length ds \<Longrightarrow>
   set_diameters_loop em ds js e =
     (Inr (), foldl (\<lambda>e i. ENsetlinkvalue em (i + 1) EN_DIAMETER (real_of_int (ds ! i)) e) e js)"
  by (induction js arbitrary: e) (simp_all add: list_getitem_in_range)

lemma change_diameters_mismatch:
  "links self = Some l \<Longrightarrow> length ds \<noteq> l \<Longrightarrow>
   change_diameters em self ds e = (Inl AssertionError, e)"
  by (simp add: change_diameters_def len_is_links_iff)

lemma change_diameters_small:
  "links self = Some l \<Longrightarrow> length ds = l \<Longrightarrow> l \<le> 256 \<Longrightarrow>
   change_diameters em self ds e =
     (Inr (), foldl (\<lambda>e i. ENsetlinkvalue em (i + 1) EN_DIAMETER (real_of_int (ds ! i)) e) e [0..<l])"
  by (simp add: change_diameters_def len_is_links_iff set_diameters_loop_in_range)

section \<open>Facts about the driver loop\<close>

lemma execs_loop_append:
  "execs_loop run (xs @ ys) best acc g =
     (case execs_loop run xs best acc g of
        (Inl err, g1) \<Rightarrow> (Inl err, g1)
      | (Inr (best1, acc1), g1) \<Rightarrow> execs_loop run ys best1 acc1 g1)"
proof (induction xs arbitrary: best acc g)
  case Nil
  show ?case by simp
next
  case (Cons x xs)
  show ?case
    by (simp add: Cons.IH Let_def split: prod.splits sum.splits)
qed

section \<open>Facts about the objective function\<close>

lemma change_diameters_Inr:
  "change_diameters em self ds e = (Inr u, e1) \<Longrightarrow> links self = Some (length ds)"
  by (auto simp: change_diameters_def len_is_links_def py_is_int_def split: if_splits option.splits)

lemma dict_getitem_key:
  "d \<in> Mapping.keys m \<Longrightarrow> dict_getitem m d = Inr (the (Mapping.lookup m d))"
  by (auto simp: dict_getitem_def Mapping.keys_dom_lookup split: option.splits)

lemma dict_getitem_error:
  "dict_getitem m d = Inl err \<longleftrightarrow> err = KeyError \<and> d \<notin> Mapping.keys m"
  by (auto simp: dict_getitem_def Mapping.keys_dom_lookup split: option.splits)

lemma pressure_loop_closed:
  "\<forall>i \<in> set js. i < length (sources network) \<and> i < length (pressure network) \<Longrightarrow>
   pressure_loop network hmin hmax penalty js pH =
     Inr (pH + penalty * real (length (filter (\<lambda>i. sources network ! i = 0 \<and>
            (pressure network ! i < hmin \<or> pressure network ! i > hmax)) js)))"
  by (induction js arbitrary: pH) (simp_all add: list_getitem_in_range algebra_simps)

lemma velocity_loop_closed:
  "\<forall>i \<in> set js. i < length (velocity network) \<Longrightarrow>
   velocity_loop network vmin vmax penalty js pV =
     Inr (pV + penalty * real (length (filter (\<lambda>i. velocity network ! i < vmin \<or>
            velocity network ! i > vmax) js)))"
  by (induction js arbitrary: pV) (simp_all add: list_getitem_in_range algebra_simps)

lemma cost_loop_closed:
  "\<forall>i \<in> set js. i < length ds \<and> ds ! i \<in> Mapping.keys unit_prices \<and> i < length (lengths network) \<Longrightarrow>
   cost_loop ds network unit_prices pV pH js cost =
     Inr (cost + (\<Sum>i\<leftarrow>js. unit_price unit_prices (ds ! i) * lengths network ! i * pV * pH))"
  by (induction js arbitrary: cost)
     (simp_all add: list_getitem_in_range dict_getitem_key unit_price_def algebra_simps)

lemma cost_loop_all:
  assumes "\<forall>d \<in> set ds. d \<in> Mapping.keys unit_prices" and "length ds \<le> length (lengths network)"
  shows "cost_loop ds network unit_prices pV pH [0..<length ds] 0 =
           Inr (material_cost unit_prices ds network * pV * pH)"
proof -
  have "\<forall>i \<in> set [0..<length ds]. i < length ds \<and> ds ! i \<in> Mapping.keys unit_prices
          \<and> i < length (lengths network)"
    using assms by auto
  then have "cost_loop ds network unit_prices pV pH [0..<length ds] 0 =
     Inr (0 + (\<Sum>i\<leftarrow>[0..<length ds]. unit_price unit_prices (ds ! i) * lengths network ! i * pV * pH))"
    by (rule cost_loop_closed)
  also have "(\<Sum>i\<leftarrow>[0..<length ds]. unit_price unit_prices (ds ! i) * lengths network ! i * pV * pH)
      = (\<Sum>i < length ds. unit_price unit_prices (ds ! i) * lengths network ! i * pV * pH)"
    by (simp add: interv_sum_list_conv_sum_set_nat atLeast0LessThan)
  also have "\<dots> = material_cost unit_prices ds network * pV * pH"
    by (simp add: material_cost_def sum_distrib_right)
  finally show ?thesis by simp
qed

lemma penalized_cost_closed:
  assumes "nodes network = Some n" and "links network = Some l"
    and "n \<le> length (sources network)" and "n \<le> length (pressure network)"
    and "l \<le> length (velocity network)" and "length ds \<le> length (lengths network)"
    and "\<forall>d \<in> set ds. d \<in> Mapping.keys unit_prices"
  shows "penalized_cost ds network unit_prices kwargs =
     Inr (material_cost unit_prices ds network
          * (1 + kwargs_get kwargs ''penalty_step'' 1
                 * real (velocity_violations network (kwargs_get kwargs ''vmin'' 0.25)
                           (kwargs_get kwargs ''vmax'' 2.50) l))
          * (1 + kwargs_get kwargs ''penalty_step'' 1
                 * real (pressure_violations network (kwargs_get kwargs ''hmin'' 30)
                           (kwargs_get kwargs ''hmax'' 100) n)))"
proof -
  have p: "\<forall>i \<in> set [0..<n]. i < length (sources network) \<and> i < length (pressure network)"
    using assms(3,4) by auto
  have v: "\<forall>i \<in> set [0..<l]. i < length (velocity network)"
    using assms(5) by auto
  show ?thesis
    unfolding penalized_cost_def Let_def
    by (simp add: assms(1,2) pressure_loop_closed [OF p] velocity_loop_closed [OF v]
          cost_loop_all [OF assms(7,6)] pressure_violations_def velocity_violations_def)
qed

lemma simulate_Inr:
  assumes "simulate em e self = Some (Inr arrays, e', self')"
  shows "\<exists>n l. nodes self = Some n \<and> links self = Some l
      \<and> nodes self' = Some n \<and> links self' = Some l
      \<and> n \<le> length (pressure self') \<and> n \<le> length (sources self')
      \<and> l \<le> length (velocity self') \<and> l \<le> length (lengths self')
      \<and> arrays = (pressure self', velocity self', lengths self', sources self')"
proof -
  let ?self0 = "self\<lparr>pressure := [], velocity := [], lengths := [], diameters := [], sources := []\<rparr>"
  from assms have loop: "simulate_loop em (ENinitH em (EN_NOSAVE em) e) ?self0 = Some (Inr (), e', self')"
    and arr: "arrays = (pressure self', velocity self', lengths self', sources self')"
    by (auto simp: simulate_def Let_def split: option.splits sum.splits prod.splits)
  from simulate_loop_rows [OF loop] arr show ?thesis by auto
qed

lemma network_cost_closed:
  assumes "\<forall>d \<in> set ds. d \<in> Mapping.keys unit_prices"
    and "change_diameters em network ds e = (Inr (), e1)"
    and "simulate em e1 network = Some (Inr arrays, e2, network2)"
  shows "\<exists>n. nodes network = Some n \<and> links network = Some (length ds)
      \<and> length ds \<le> length (lengths network2)
      \<and> arrays = (pressure network2, velocity network2, lengths network2, sources network2)
      \<and> network_cost em ds network unit_prices kwargs e =
          Some (Inr (material_cost unit_prices ds network2
                 * (1 + kwargs_get kwargs ''penalty_step'' 1
                        * real (velocity_violations network2 (kwargs_get kwargs ''vmin'' 0.25)
                                  (kwargs_get kwargs ''vmax'' 2.50) (length ds)))
                 * (1 + kwargs_get kwargs ''penalty_step'' 1
                        * real (pressure_violations network2 (kwargs_get kwargs ''hmin'' 30)
                                  (kwargs_get kwargs ''hmax'' 100) n))),
                e2, network2)"
proof -
  have l: "links network = Some (length ds)"
    using assms(2) by (rule change_diameters_Inr)
  from simulate_Inr [OF assms(3)] l obtain n where n: "nodes network = Some n"
    and post: "nodes network2 = Some n" "links network2 = Some (length ds)"
      "n \<le> length (sources network2)" "n \<le> length (pressure network2)"
      "length ds \<le> length (velocity network2)" "length ds \<le> length (lengths network2)"
    and arr: "arrays = (pressure network2, velocity network2, lengths network2, sources network2)"
    by auto
  have "network_cost em ds network unit_prices kwargs e =
          Some (penalized_cost ds network2 unit_prices kwargs, e2, network2)"
    by (simp add: network_cost_def assms(2,3))
  then show ?thesis
    using n l arr post(6) penalized_cost_closed [OF post assms(1), of kwargs]
    by simp
qed

lemma penalty_factors_le:
  fixes M A B :: real
  assumes "0 \<le> M" and "1 \<le> A" and "1 \<le> B"
  shows "M \<le> M * A * B"
proof -
  have "1 * 1 \<le> A * B" using assms(2,3) by (intro mult_mono) auto
  then have "M * 1 \<le> M * (A * B)" using assms(1) by (intro mult_left_mono) auto
  then show ?thesis by (simp add: mult.assoc)
qed

lemma penalty_factors_eq:
  fixes M A B :: real
  assumes "0 < M" and "1 \<le> A" and "1 \<le> B" and "M * A * B = M"
  shows "A = 1 \<and> B = 1"
proof -
  have prod: "A * B = 1" using assms(1,4) by (simp add: mult.assoc)
  have "A * 1 \<le> A * B" using assms(2,3) by (intro mult_left_mono) auto
  then have "A = 1" using prod assms(2) by simp
  with prod show ?thesis by simp
qed

lemma material_cost_bounds:
  assumes keys: "\<forall>d \<in> set ds. d \<in> Mapping.keys unit_prices"
    and fin: "finite (Mapping.keys unit_prices)"
    and prices: "\<forall>d \<in> Mapping.keys unit_prices. 0 \<le> unit_price unit_prices d"
    and lens: "\<forall>x \<in> set (lengths network). 0 \<le> x"
    and len: "length ds \<le> length (lengths network)"
  shows "0 \<le> material_cost unit_prices ds network"
    and "(\<Sum>i < length ds. min_unit_price unit_prices * lengths network ! i)
           \<le> material_cost unit_prices ds network"
proof -
  have elt: "0 \<le> lengths network ! i \<and> ds ! i \<in> Mapping.keys unit_prices" if "i < length ds" for i
    using that keys lens len by (auto simp: all_set_conv_all_nth)
  show "0 \<le> material_cost unit_prices ds network"
    unfolding material_cost_def using elt prices by (intro sum_nonneg mult_nonneg_nonneg) auto
  have "min_unit_price unit_prices \<le> unit_price unit_prices (ds ! i)" if "i < length ds" for i
    unfolding min_unit_price_def using fin elt [OF that] by (intro Min_le) auto
  then show "(\<Sum>i < length ds. min_unit_price unit_prices * lengths network ! i)
           \<le> material_cost unit_prices ds network"
    unfolding material_cost_def using elt by (intro sum_mono mult_right_mono) auto
qed

text \<open>When every run completes, the statistics file holds the tagged rows and the report
  the best solution.\<close>

lemma completed_executions_write_rows:
  "optimize_diameters_execs flaky_run no_plot ''2020_01_01-00_00_00'' ''0:00:01''
       ''results/'' 10 1 0 Mapping.empty
   = (Inr sample_individual, 1,
      Mapping.update ''results/ga_dimen_2020_01_01-00_00_00.txt''
        (Report [Best_solution (Some sample_individual), Best_fitness 5, Run_time ''0:00:01''])
        (Mapping.update ''results/ga_dimen_2020_01_01-00_00_00.csv''
           (Csv [\<lparr>row = sample_row, bestFit = 5\<rparr>]) Mapping.empty))"
  by (simp add: optimize_diameters_execs_def flaky_run_def list_getitem_def sample_individual_def
        Let_def no_plot_def append_report_def)

section \<open>Which errors the objective function can raise\<close>

lemma set_diameters_loop_error:
  "set_diameters_loop em ds js e = (Inl err, e') \<Longrightarrow> err = IndexError"
  by (induction js arbitrary: e) (auto simp: list_getitem_error split: sum.splits)

lemma change_diameters_error:
  "change_diameters em self ds e = (Inl err, e') \<Longrightarrow> err \<noteq> KeyError"
  by (auto simp: change_diameters_def split: if_splits option.splits
           dest: set_diameters_loop_error)

lemma simulate_loop_error:
  assumes "simulate_loop em e self = Some y"
  shows "fst y = Inl err \<longrightarrow> err = TypeError"
  using assms
proof (induction em e self y rule: simulate_loop.raw_induct [rotated 1, consumes 1])
  case (1 loop em e self y)
  then show ?case
    by (auto simp: Let_def split: option.splits if_splits)
qed

lemma simulate_error:
  "simulate em e self = Some (Inl err, e', self') \<Longrightarrow> err = TypeError"
  using simulate_loop_error [of em "ENinitH em (EN_NOSAVE em) e" _ _ err]
  by (auto simp: simulate_def Let_def split: option.splits sum.splits prod.splits)

lemma pressure_loop_error:
  "pressure_loop network hmin hmax penalty js pH = Inl err \<Longrightarrow> err = IndexError"
  by (induction js arbitrary: pH) (auto simp: list_getitem_error split: sum.splits if_splits)

lemma velocity_loop_error:
  "velocity_loop network vmin vmax penalty js pV = Inl err \<Longrightarrow> err = IndexError"
  by (induction js arbitrary: pV) (auto simp: list_getitem_error split: sum.splits if_splits)

lemma cost_loop_KeyError:
  "cost_loop ds network unit_prices pV pH js cost = Inl KeyError \<Longrightarrow>
   \<exists>d \<in> set ds. d \<notin> Mapping.keys unit_prices"
  by (induction js arbitrary: cost)
     (auto simp: list_getitem_error dict_getitem_error split: sum.splits dest: list_getitem_member)

lemma penalized_cost_KeyError:
  "penalized_cost ds network unit_prices kwargs = Inl KeyError \<Longrightarrow>
   \<exists>d \<in> set ds. d \<notin> Mapping.keys unit_prices"
  by (auto simp: penalized_cost_def Let_def split: option.splits sum.splits
           dest: pressure_loop_error velocity_loop_error cost_loop_KeyError)

lemma network_cost_KeyError:
  "network_cost em ds network unit_prices kwargs e = Some (Inl KeyError, e', network') \<Longrightarrow>
   \<exists>d \<in> set ds. d \<notin> Mapping.keys unit_prices"
  by (auto simp: network_cost_def split: prod.splits sum.splits option.splits
           dest: change_diameters_error simulate_error penalized_cost_KeyError)

section \<open>What a simulation keeps and what it forgets\<close>

lemma simulate_keeps_old_rows:
  assumes "simulate em e self = Some (r, e', self')"
  shows "prefix (nodeids self) (nodeids self') \<and> prefix (flowrate self) (flowrate self')"
proof -
  let ?self0 = "self\<lparr>pressure := [], velocity := [], lengths := [], diameters := [], sources := []\<rparr>"
  from assms obtain u where "simulate_loop em (ENinitH em (EN_NOSAVE em) e) ?self0 = Some (u, e', self')"
    by (auto simp: simulate_def Let_def split: option.splits sum.splits prod.splits)
  from simulate_loop_rows [OF this] show ?thesis by simp
qed

lemma simulate_forgets_reset_arrays:
  "simulate em e (self\<lparr>pressure := ps, velocity := vs, lengths := ls, diameters := ds, sources := ts\<rparr>)
     = simulate em e self"
  by (simp add: simulate_def)

section \<open>The diameter catalog: claims C5 and C7\<close>

text \<open>
  Claim C5, as amended.  For a price table with finitely many keys, \<open>index2diam\<close> fails
  exactly when some index of the list lies outside \<open>[-|catalog|, |catalog|)\<close>, and the
  failure is an \<open>IndexError\<close>.  An index in \<open>[-|catalog|, 0)\<close> does not fail: it is
  resolved from the end of the sorted keys.
\<close>

theorem index2diam_error_iff:
  assumes "finite (Mapping.keys pipe_price)"
  shows "index2diam diam_indexes pipe_price = Inl e \<longleftrightarrow>
           e = IndexError \<and>
           (\<exists>x \<in> set diam_indexes.
              x < - int (Mapping.size pipe_price) \<or> int (Mapping.size pipe_price) \<le> x)"
proof -
  let ?keys = "Mapping.ordered_keys pipe_price"
  have len: "length ?keys = Mapping.size pipe_price"
    using assms by (rule length_ordered_keys)
  show ?thesis
  proof
    assume "index2diam diam_indexes pipe_price = Inl e"
    then have "list_comp (\<lambda>x. list_getitem ?keys x) diam_indexes = Inl e"
      by (simp add: index2diam_def)
    then obtain x where "x \<in> set diam_indexes" "list_getitem ?keys x = Inl e"
      using list_comp_Inl_error by fastforce
    then show "e = IndexError \<and>
           (\<exists>x \<in> set diam_indexes.
              x < - int (Mapping.size pipe_price) \<or> int (Mapping.size pipe_price) \<le> x)"
      using len by (auto simp: list_getitem_error)
  next
    assume a: "e = IndexError \<and>
           (\<exists>x \<in> set diam_indexes.
              x < - int (Mapping.size pipe_price) \<or> int (Mapping.size pipe_price) \<le> x)"
    then obtain x where "x \<in> set diam_indexes" "list_getitem ?keys x = Inl IndexError"
      using len by (auto simp: list_getitem_error)
    then have "\<exists>e'. list_comp (\<lambda>x. list_getitem ?keys x) diam_indexes = Inl e'"
      unfolding list_comp_Inl_iff by blast
    then obtain e' where e': "list_comp (\<lambda>x. list_getitem ?keys x) diam_indexes = Inl e'"
      by blast
    then have "e' = IndexError"
      using list_comp_Inl_error [OF e'] by (auto simp: list_getitem_error)
    then show "index2diam diam_indexes pipe_price = Inl e"
      using e' a by (simp add: index2diam_def)
  qed
qed

theorem index2diam_error_iff_witness:
  "index2diam [0, 3] (Mapping.of_alist [(25, 2), (51, 5), (76, 8)] :: (int, int) mapping)
     = Inl IndexError
   \<and> index2diam [- 3, 2] (Mapping.of_alist [(25, 2), (51, 5), (76, 8)] :: (int, int) mapping)
     \<noteq> Inl IndexError"
proof -
  let ?m = "Mapping.of_alist [(25, 2), (51, 5), (76, 8)] :: (int, int) mapping"
  have fin: "finite (Mapping.keys ?m)" by simp
  have sz: "Mapping.size ?m = 3" by (simp add: Mapping.size_def)
  show ?thesis
    using index2diam_error_iff [OF fin, of "[0, 3]" IndexError]
      index2diam_error_iff [OF fin, of "[- 3, 2]" IndexError]
    by (simp add: sz)
qed

text \<open>
  Claim C5 as stated fails at the index \<open>-1\<close>: it lies outside \<open>[0, |catalog|)\<close>, and
  \<open>index2diam\<close> returns the largest diameter instead of failing.
\<close>

theorem index2diam_negative_index_counterexample:
  "\<not> (0 \<le> (- 1 :: int)) \<and>
   index2diam [- 1] (Mapping.of_alist [(25, 2), (51, 5), (76, 8)] :: (int, int) mapping) = Inr [76]"
  by code_simp

text \<open>
  Claim C7.  \<open>index2diam\<close> is monotonic: whenever two indices of the list lie in
  \<open>[0, |catalog|)\<close> and the first is at most the second, the diameter resolved for the
  first is at most the diameter resolved for the second (and strictly smaller when the
  indices differ).  The result is a function of the indices and of the key set of the
  catalog alone: any catalog with the same keys gives the same list.
\<close>

theorem index2diam_monotonic:
  assumes "index2diam diam_indexes pipe_price = Inr d"
    and "p < length diam_indexes" and "q < length diam_indexes"
    and "0 \<le> diam_indexes ! p" and "diam_indexes ! p \<le> diam_indexes ! q"
    and "diam_indexes ! q < int (Mapping.size pipe_price)"
    and "finite (Mapping.keys pipe_price)"
  shows "d ! p \<le> d ! q
     \<and> (diam_indexes ! p < diam_indexes ! q \<longrightarrow> d ! p < d ! q)
     \<and> (\<forall>other :: (int, 'w) mapping.
          Mapping.keys other = Mapping.keys pipe_price \<longrightarrow> index2diam diam_indexes other = Inr d)"
proof -
  let ?keys = "Mapping.ordered_keys pipe_price"
  let ?i = "diam_indexes ! p" and ?j = "diam_indexes ! q"
  have len: "length ?keys = Mapping.size pipe_price"
    using assms(7) by (rule length_ordered_keys)
  have lc: "list_comp (\<lambda>x. list_getitem ?keys x) diam_indexes = Inr d"
    using assms(1) by (simp add: index2diam_def)
  have dp: "list_getitem ?keys ?i = Inr (d ! p)" and dq: "list_getitem ?keys ?j = Inr (d ! q)"
    using list_comp_Inr_nth [OF lc] assms(2,3) by auto
  have ri: "0 \<le> ?i" "?i < int (length ?keys)" and rj: "0 \<le> ?j" "?j < int (length ?keys)"
    using assms(4,5,6) len by auto
  have ep: "d ! p = ?keys ! nat ?i" and eq: "d ! q = ?keys ! nat ?j"
    using dp dq list_getitem_in_range [OF ri] list_getitem_in_range [OF rj] by auto
  have nat_le: "nat ?i \<le> nat ?j" "nat ?j < length ?keys"
    using ri rj assms(5) by auto
  have le: "d ! p \<le> d ! q"
    unfolding ep eq using nat_le by (intro sorted_nth_mono) auto
  have lt: "d ! p < d ! q" if "?i < ?j"
  proof -
    have "nat ?i < nat ?j" using that ri by auto
    then have "?keys ! nat ?i \<noteq> ?keys ! nat ?j"
      using nat_le by (auto simp: nth_eq_iff_index_eq)
    then show ?thesis using le ep eq by auto
  qed
  have det: "index2diam diam_indexes other = Inr d"
    if "Mapping.keys other = Mapping.keys pipe_price" for other :: "(int, 'w) mapping"
  proof -
    have "Mapping.ordered_keys other = Mapping.ordered_keys pipe_price"
      using that by (simp add: Mapping.ordered_keys_def)
    then show ?thesis using assms(1) by (simp add: index2diam_def)
  qed
  show ?thesis using le lt det by blast
qed

theorem index2diam_monotonic_witness:
  "index2diam [2, 0, 1] (Mapping.of_alist [(76, 8), (25, 2), (51, 5)] :: (int, int) mapping)
     = Inr [76, 25, 51]
   \<and> [76, 25, 51 :: int] ! 1 \<le> [76, 25, 51] ! 2"
proof -
  let ?m = "Mapping.of_alist [(76, 8), (25, 2), (51, 5)] :: (int, int) mapping"
  have r: "index2diam [2, 0, 1] ?m = Inr [76, 25, 51]" by code_simp
  have fin: "finite (Mapping.keys ?m)" by simp
  have sz: "Mapping.size ?m = 3" by (simp add: Mapping.size_def)
  have "[76, 25, 51 :: int] ! 1 \<le> [76, 25, 51] ! 2"
    using index2diam_monotonic [OF r, of 1 2, OF _ _ _ _ _ fin] by (simp add: sz)
  with r show ?thesis by simp
qed

section \<open>The network session: claims C6, C4 and C2\<close>

text \<open>
  Claim C6, as amended.  \<open>open_network\<close> never fails and always returns \<open>True\<close>.  When the
  topology file exists it opens a session with the engine (\<open>ENopen\<close>) and then the
  hydraulic solver (\<open>ENopenH\<close>), and changes nothing else.  When the file does not exist
  it prints the line \<open>File: <path> does not exist\<close> and leaves the engine as it was.
\<close>

theorem open_network_returns_True:
  "fst (open_network em self w) = Inr True
   \<and> (check_file self w \<longrightarrow>
        snd (open_network em self w) =
          w\<lparr>engine := ENopenH em (ENopen em (path self @ inputfile self)
                                   (path self @ outputfile self) (engine w))\<rparr>)
   \<and> (\<not> check_file self w \<longrightarrow>
        snd (open_network em self w) =
          w\<lparr>stdout := stdout w @ [''File: '' @ path self @ inputfile self @ '' does not exist'']\<rparr>
        \<and> engine (snd (open_network em self w)) = engine w)"
  by (simp add: open_network_def Let_def)

theorem open_network_returns_True_witness:
  "check_file (Network ''data/'' ''TwoLoop.inp'')
     \<lparr>files = {''data/TwoLoop.inp''}, stdout = [], engine = ([], [])\<rparr>
   \<and> open_network (table_engine [] [] [] []) (Network ''data/'' ''TwoLoop.inp'')
       \<lparr>files = {''data/TwoLoop.inp''}, stdout = [], engine = ([], [])\<rparr>
     = (Inr True,
        \<lparr>files = {''data/TwoLoop.inp''}, stdout = [],
         engine = ([''ENopen data/TwoLoop.inp data/.inp.rpt'', ''ENopenH''], [])\<rparr>)
   \<and> \<not> check_file (Network ''data/'' ''TwoLoop.inp'')
       \<lparr>files = {}, stdout = [], engine = ([] :: string list, [] :: real list)\<rparr>
   \<and> open_network (table_engine [] [] [] []) (Network ''data/'' ''TwoLoop.inp'')
       \<lparr>files = {}, stdout = [], engine = ([], [])\<rparr>
     = (Inr True,
        \<lparr>files = {}, stdout = [''File: data/TwoLoop.inp does not exist''], engine = ([], [])\<rparr>)"
  using open_network_returns_True [of "table_engine [] [] [] []" "Network ''data/'' ''TwoLoop.inp''"
      "\<lparr>files = {''data/TwoLoop.inp''}, stdout = [], engine = ([], [])\<rparr>"]
    open_network_returns_True [of "table_engine [] [] [] []" "Network ''data/'' ''TwoLoop.inp''"
      "\<lparr>files = {}, stdout = [], engine = ([], [])\<rparr>"]
  by (simp add: check_file_def Network_def table_engine_def EXT_REPORT_def prod_eq_iff)

text \<open>
  Claim C6 as stated fails when the topology file is absent: \<open>open_network\<close> returns
  \<open>True\<close>, it raises nothing.
\<close>

theorem open_network_missing_file_counterexample:
  "''data/TwoLoop.inp'' \<notin> files \<lparr>files = {}, stdout = [], engine = ([] :: string list, [] :: real list)\<rparr>
   \<and> fst (open_network (table_engine [] [] [] []) (Network ''data/'' ''TwoLoop.inp'')
       \<lparr>files = {}, stdout = [], engine = ([], [])\<rparr>) = Inr True"
  by (simp add: open_network_def Let_def)

text \<open>
  Claim C4 at a network of 2000 links and a list of 2000 diameters: the lengths match, and
  \<open>change_diameters\<close> fails its assertion and writes no diameter, since
  \<open>len(diameters) is self.links\<close> compares the identity of two integer objects, which
  differ for every count above 256.
\<close>

theorem change_diameters_large_network:
  "length (replicate 2000 (100 :: int)) = 2000
   \<and> links (initialize (table_engine [] [] (replicate 2000 1) (replicate 2000 10))
              (Network ''data/'' ''big.inp'') e) = Some 2000
   \<and> change_diameters (table_engine [] [] (replicate 2000 1) (replicate 2000 10))
       (initialize (table_engine [] [] (replicate 2000 1) (replicate 2000 10))
          (Network ''data/'' ''big.inp'') e)
       (replicate 2000 100) e
     = (Inl AssertionError, e)"
  by (simp add: initialize_def table_engine_def change_diameters_def len_is_links_iff)

text \<open>
  Claim C2 at a network of one node and one link, simulated twice: after the second call
  the pressure and velocity arrays hold the one row of that call, but \<open>nodeids\<close> and
  \<open>flowrate\<close> hold two rows, the first of them appended by the first call.  \<open>simulate\<close>
  resets \<open>pressure\<close>, \<open>velocity\<close>, \<open>lengths\<close>, \<open>diameters\<close> and \<open>sources\<close> only.
\<close>

theorem simulate_twice_keeps_old_rows:
  "Option.bind
     (simulate (table_engine [0] [50] [1] [10]) ([], [100])
        (initialize (table_engine [0] [50] [1] [10]) (Network ''data/'' ''One.inp'') ([], [100])))
     (\<lambda>(r1, e1, n1).
        map_option
          (\<lambda>(r2, e2, n2). ((nodeids n1, flowrate n1, pressure n1, velocity n1),
                           (nodeids n2, flowrate n2, pressure n2, velocity n2)))
          (simulate (table_engine [0] [50] [1] [10]) e1 n1))
   = Some (([''n''], [0], [50], [1]), ([''n'', ''n''], [0, 0], [50], [1]))"
  by (simp add: simulate_def simulate_loop.simps initialize_def Network_def table_engine_def
        node_row_def link_row_def Let_def EN_PRESSURE_def EN_VELOCITY_def EN_LENGTH_def EN_DIAMETER_def
        EN_FLOW_def)

section \<open>The objective function: claim C1\<close>

text \<open>
  Claim C1.  Let every diameter of the assignment be a key of the price table, let
  \<open>change_diameters\<close> accept the assignment and let the simulation return its arrays.
  Then \<open>network_cost\<close> returns
  \<open>(\<Sum>i. unitPrice[diameter i] * length i) * pV * pH\<close>, where \<open>pH\<close> is 1 plus
  \<open>penalty_step\<close> for each of the \<open>n\<close> nodes that is not a source and whose pressure is
  strictly below \<open>hmin\<close> or strictly above \<open>hmax\<close>, and \<open>pV\<close> is 1 plus \<open>penalty_step\<close>
  for each pipe whose velocity is strictly below \<open>vmin\<close> or strictly above \<open>vmax\<close>; the
  arrays are those the simulation produced, and the bounds and the step default to
  30, 100, 0.25, 2.50 and 1 when the keyword arguments do not give them.
\<close>

theorem network_cost_formula:
  assumes "\<forall>d \<in> set ds. d \<in> Mapping.keys unit_prices"
    and "change_diameters em network ds e = (Inr (), e1)"
    and "simulate em e1 network = Some (Inr arrays, e2, network2)"
  shows "\<exists>n. nodes network = Some n \<and> links network = Some (length ds)
      \<and> arrays = (pressure network2, velocity network2, lengths network2, sources network2)
      \<and> network_cost em ds network unit_prices kwargs e =
          Some (Inr ((\<Sum>i < length ds. unit_price unit_prices (ds ! i) * lengths network2 ! i)
                 * (1 + kwargs_get kwargs ''penalty_step'' 1
                        * real (velocity_violations network2 (kwargs_get kwargs ''vmin'' 0.25)
                                  (kwargs_get kwargs ''vmax'' 2.50) (length ds)))
                 * (1 + kwargs_get kwargs ''penalty_step'' 1
                        * real (pressure_violations network2 (kwargs_get kwargs ''hmin'' 30)
                                  (kwargs_get kwargs ''hmax'' 100) n))),
                e2, network2)"
  using network_cost_closed [OF assms, of kwargs]
  by (auto simp: material_cost_def)

theorem network_cost_formula_witness:
  "map_option fst
     (network_cost (table_engine [1, 0, 0] [0, 50, 20] [1, 3] [10, 20]) [25, 51]
        (initialize (table_engine [1, 0, 0] [0, 50, 20] [1, 3] [10, 20])
           (Network ''data/'' ''TwoLoop.inp'') ([], [0, 0]))
        (Mapping.of_alist [(25, 2), (51, 5)]) Mapping.empty ([], [0, 0]))
   = Some (Inr 480)"
proof -
  let ?E = "table_engine [1, 0, 0] [0, 50, 20] [1, 3] [10, 20]"
  let ?N = "initialize ?E (Network ''data/'' ''TwoLoop.inp'') ([], [0, 0])"
  let ?up = "Mapping.of_alist [(25, 2), (51, 5)] :: (int, int) mapping"
  have keys: "\<forall>d \<in> set [25, 51]. d \<in> Mapping.keys ?up" by simp
  have cd: "change_diameters ?E ?N [25, 51] ([], [0, 0]) = (Inr (), ([], [25, 51]))"
    by (simp add: change_diameters_def len_is_links_def py_is_int_def initialize_def
          table_engine_def list_getitem_def)
  have "\<exists>e2 N2. simulate ?E ([], [25, 51]) ?N =
          Some (Inr ([0, 50, 20], [1, 3], [10, 20], [1, 0, 0]), e2, N2)"
    by (simp add: simulate_def simulate_loop.simps initialize_def Network_def table_engine_def
          node_row_def link_row_def Let_def EN_PRESSURE_def EN_VELOCITY_def EN_LENGTH_def
          EN_DIAMETER_def EN_FLOW_def)
  then obtain e2 N2 where sim: "simulate ?E ([], [25, 51]) ?N =
          Some (Inr ([0, 50, 20], [1, 3], [10, 20], [1, 0, 0]), e2, N2)"
    by blast
  have n: "nodes ?N = Some (Suc (Suc (Suc 0)))" by (simp add: initialize_def table_engine_def)
  note formula = network_cost_formula [OF keys cd sim, of Mapping.empty]
  from formula have arr: "pressure N2 = [0, 50, 20]" "velocity N2 = [1, 3]"
    "lengths N2 = [10, 20]" "sources N2 = [1, 0, 0]"
    by auto
  from formula n show ?thesis
    by (simp add: arr pressure_violations_def velocity_violations_def unit_price_def kwargs_get_def
          lookup_of_alist lessThan_Suc)
qed

section \<open>The objective function: claim C3\<close>

text \<open>
  Claim C3, as amended.  Let \<open>change_diameters\<close> accept the assignment, let its diameters
  be keys of the catalog and let the simulation return its arrays; let the unit prices,
  the pipe lengths and the penalty step be non-negative.  Then \<open>network_cost\<close> returns a
  cost that is at least the raw material cost \<open>\<Sum>i. unitPrice[diameter i] * length i\<close>,
  which is at least \<open>\<Sum>i. minUnitPrice * length i\<close>.  The cost equals the raw material
  cost when no pressure and no velocity constraint is violated; and when the raw material
  cost and the penalty step are positive, it equals it only then.
\<close>

theorem network_cost_lower_bound:
  assumes keys: "\<forall>d \<in> set ds. d \<in> Mapping.keys unit_prices"
    and cd: "change_diameters em network ds e = (Inr (), e1)"
    and sim: "simulate em e1 network = Some (Inr arrays, e2, network2)"
    and fin: "finite (Mapping.keys unit_prices)"
    and prices: "\<forall>d \<in> Mapping.keys unit_prices. 0 \<le> unit_price unit_prices d"
    and lens: "\<forall>x \<in> set (lengths network2). 0 \<le> x"
    and pen: "0 \<le> kwargs_get kwargs ''penalty_step'' 1"
  shows "\<exists>cost n. network_cost em ds network unit_prices kwargs e = Some (Inr cost, e2, network2)
      \<and> nodes network = Some n
      \<and> (\<Sum>i < length ds. min_unit_price unit_prices * lengths network2 ! i)
           \<le> material_cost unit_prices ds network2
      \<and> material_cost unit_prices ds network2 \<le> cost
      \<and> (pressure_violations network2 (kwargs_get kwargs ''hmin'' 30)
             (kwargs_get kwargs ''hmax'' 100) n = 0
           \<and> velocity_violations network2 (kwargs_get kwargs ''vmin'' 0.25)
               (kwargs_get kwargs ''vmax'' 2.50) (length ds) = 0
           \<longrightarrow> cost = material_cost unit_prices ds network2)
      \<and> (0 < kwargs_get kwargs ''penalty_step'' 1 \<and> 0 < material_cost unit_prices ds network2
           \<and> cost = material_cost unit_prices ds network2
           \<longrightarrow> pressure_violations network2 (kwargs_get kwargs ''hmin'' 30)
                 (kwargs_get kwargs ''hmax'' 100) n = 0
               \<and> velocity_violations network2 (kwargs_get kwargs ''vmin'' 0.25)
                   (kwargs_get kwargs ''vmax'' 2.50) (length ds) = 0)"
proof -
  let ?p = "kwargs_get kwargs ''penalty_step'' 1"
  let ?M = "material_cost unit_prices ds network2"
  from network_cost_closed [OF keys cd sim, of kwargs] obtain n where
    n: "nodes network = Some n" and len: "length ds \<le> length (lengths network2)"
    and cost: "network_cost em ds network unit_prices kwargs e =
          Some (Inr (?M
                 * (1 + ?p * real (velocity_violations network2 (kwargs_get kwargs ''vmin'' 0.25)
                                  (kwargs_get kwargs ''vmax'' 2.50) (length ds)))
                 * (1 + ?p * real (pressure_violations network2 (kwargs_get kwargs ''hmin'' 30)
                                  (kwargs_get kwargs ''hmax'' 100) n))),
                e2, network2)"
    by blast
  let ?vv = "velocity_violations network2 (kwargs_get kwargs ''vmin'' 0.25)
               (kwargs_get kwargs ''vmax'' 2.50) (length ds)"
  let ?pv = "pressure_violations network2 (kwargs_get kwargs ''hmin'' 30)
               (kwargs_get kwargs ''hmax'' 100) n"
  let ?A = "1 + ?p * real ?vv" and ?B = "1 + ?p * real ?pv"
  have M0: "0 \<le> ?M" and Mmin: "(\<Sum>i < length ds. min_unit_price unit_prices * lengths network2 ! i) \<le> ?M"
    using material_cost_bounds [OF keys fin prices lens len] by auto
  have A: "1 \<le> ?A" and B: "1 \<le> ?B" using pen by auto
  have le: "?M \<le> ?M * ?A * ?B" using penalty_factors_le [OF M0 A B] .
  have none: "?M * ?A * ?B = ?M" if "?pv = 0 \<and> ?vv = 0" using that by simp
  have conv: "?pv = 0 \<and> ?vv = 0" if "0 < ?p \<and> 0 < ?M \<and> ?M * ?A * ?B = ?M"
  proof -
    from that penalty_factors_eq [OF _ A B] have "?A = 1 \<and> ?B = 1" by blast
    then show ?thesis using that by auto
  qed
  show ?thesis
    using cost n Mmin le none conv by blast
qed

theorem network_cost_lower_bound_witness:
  "\<exists>cost e2 N2.
     network_cost (table_engine [1, 0, 0] [0, 50, 20] [1, 3] [10, 20]) [25, 51]
        (initialize (table_engine [1, 0, 0] [0, 50, 20] [1, 3] [10, 20])
           (Network ''data/'' ''TwoLoop.inp'') ([], [0, 0]))
        (Mapping.of_alist [(25, 2), (51, 5)]) Mapping.empty ([], [0, 0])
       = Some (Inr cost, e2, N2)
     \<and> lengths N2 = [10, 20]
     \<and> (\<Sum>i < 2. min_unit_price (Mapping.of_alist [(25, 2), (51, 5)]) * lengths N2 ! i) \<le> cost"
proof -
  let ?E = "table_engine [1, 0, 0] [0, 50, 20] [1, 3] [10, 20]"
  let ?N = "initialize ?E (Network ''data/'' ''TwoLoop.inp'') ([], [0, 0])"
  let ?up = "Mapping.of_alist [(25, 2), (51, 5)] :: (int, int) mapping"
  have keys: "\<forall>d \<in> set [25, 51]. d \<in> Mapping.keys ?up" by simp
  have cd: "change_diameters ?E ?N [25, 51] ([], [0, 0]) = (Inr (), ([], [25, 51]))"
    by (simp add: change_diameters_def len_is_links_def py_is_int_def initialize_def
          table_engine_def list_getitem_def)
  have "\<exists>e2 N2. simulate ?E ([], [25, 51]) ?N =
          Some (Inr ([0, 50, 20], [1, 3], [10, 20], [1, 0, 0]), e2, N2)"
    by (simp add: simulate_def simulate_loop.simps initialize_def Network_def table_engine_def
          node_row_def link_row_def Let_def EN_PRESSURE_def EN_VELOCITY_def EN_LENGTH_def
          EN_DIAMETER_def EN_FLOW_def)
  then obtain e2 N2 where sim: "simulate ?E ([], [25, 51]) ?N =
          Some (Inr ([0, 50, 20], [1, 3], [10, 20], [1, 0, 0]), e2, N2)"
    by blast
  have len: "lengths N2 = [10, 20]" using simulate_Inr [OF sim] by auto
  have fin: "finite (Mapping.keys ?up)" by simp
  have prices: "\<forall>d \<in> Mapping.keys ?up. 0 \<le> unit_price ?up d"
    by (simp add: unit_price_def lookup_of_alist)
  have lens: "\<forall>x \<in> set (lengths N2). 0 \<le> x" by (simp add: len)
  have pen: "0 \<le> kwargs_get (Mapping.empty :: (string, real) mapping) ''penalty_step'' 1"
    by (simp add: kwargs_get_def)
  from network_cost_lower_bound [OF keys cd sim fin prices lens pen]
  obtain cost where c: "network_cost ?E [25, 51] ?N ?up Mapping.empty ([], [0, 0]) = Some (Inr cost, e2, N2)"
    and b: "(\<Sum>i < length [25, 51 :: int]. min_unit_price ?up * lengths N2 ! i) \<le> cost"
    by fastforce
  from b have "(\<Sum>i < 2. min_unit_price ?up * lengths N2 ! i) \<le> cost" by (simp add: numeral_2_eq_2)
  with c len show ?thesis by blast
qed

text \<open>
  Claim C3 as stated fails for a feasible network whose pipe is not the cheapest of the
  catalog: no constraint is violated, the cost is 50, and \<open>\<Sum>i. minUnitPrice * length i\<close>
  is 20.
\<close>

theorem network_cost_feasible_above_minimum_counterexample:
  "map_option
     (\<lambda>(c, e2, N2). (c, pressure_violations N2 30 100 2, velocity_violations N2 0.25 2.50 1,
                      \<Sum>i < 1. min_unit_price (Mapping.of_alist [(25, 2), (51, 5)]) * lengths N2 ! i))
     (network_cost (table_engine [1, 0] [0, 50] [1] [10]) [51]
        (initialize (table_engine [1, 0] [0, 50] [1] [10]) (Network ''data/'' ''One.inp'') ([], [0]))
        (Mapping.of_alist [(25, 2), (51, 5)]) Mapping.empty ([], [0]))
   = Some (Inr 50, 0, 0, 20)"
  by (simp add: network_cost_def change_diameters_def len_is_links_def py_is_int_def
        simulate_def simulate_loop.simps initialize_def Network_def table_engine_def
        node_row_def link_row_def Let_def EN_PRESSURE_def EN_VELOCITY_def EN_LENGTH_def
        EN_DIAMETER_def EN_FLOW_def list_getitem_def penalized_cost_def kwargs_get_def
        dict_getitem_def lookup_of_alist pressure_violations_def velocity_violations_def
        min_unit_price_def unit_price_def numeral_2_eq_2)

section \<open>The multi-run driver: claim C8\<close>

text \<open>
  Claim C8, as amended.  If the first \<open>k\<close> executions complete and the next one fails,
  with \<open>k\<close> below \<open>execs\<close>, the driver fails with that error and leaves every file as it
  was: the statistics rows of the completed executions are not written.  The statistics
  file is written once, after the loop.
\<close>

theorem failed_execution_writes_nothing:
  assumes "execs_loop run [0..<k] None [] g = (Inr (best, done_rows), g1)"
    and "run g1 = (Inl err, g2)"
    and "k < execs"
  shows "optimize_diameters_execs run plot_convergence start runtime dir generations execs g fs
           = (Inl err, g2, fs)"
proof -
  have split: "[0..<execs] = [0..<k] @ k # [Suc k..<execs]"
    using assms(3) by (metis less_imp_le_nat upt_add_eq_append upt_conv_Cons le0 le_add_diff_inverse)
  have "execs_loop run [0..<execs] None [] g = (Inl err, g2)"
    unfolding split execs_loop_append using assms(1,2) by simp
  then show ?thesis by (simp add: optimize_diameters_execs_def Let_def)
qed

theorem failed_execution_writes_nothing_witness:
  "execs_loop flaky_run [0..<1] None [] 0 =
     (Inr (Some sample_individual, [\<lparr>row = sample_row, bestFit = 5\<rparr>]), 1)
   \<and> optimize_diameters_execs flaky_run no_plot ''2020_01_01-00_00_00'' ''0:00:01'' ''results/''
       10 2 0 Mapping.empty
     = (Inl KeyError, 2, Mapping.empty)"
proof -
  have first: "execs_loop flaky_run [0..<1] None [] 0 =
     (Inr (Some sample_individual, [\<lparr>row = sample_row, bestFit = 5\<rparr>]), 1)"
    by (simp add: flaky_run_def list_getitem_def sample_individual_def)
  have second: "flaky_run 1 = (Inl KeyError, 2)"
    by (simp add: flaky_run_def)
  show ?thesis
    using first failed_execution_writes_nothing [OF first second, of 2 no_plot
        "''2020_01_01-00_00_00''" "''0:00:01''" "''results/''" 10 Mapping.empty]
    by simp
qed

text \<open>
  Claim C8 as stated fails when the first of two executions completes with a statistics
  row and the second fails: the statistics file does not exist afterwards.
\<close>

theorem failed_execution_loses_rows_counterexample:
  "execs_loop flaky_run [0..<1] None [] 0 =
     (Inr (Some sample_individual, [\<lparr>row = sample_row, bestFit = 5\<rparr>]), 1)
   \<and> Mapping.lookup
       (snd (snd (optimize_diameters_execs flaky_run no_plot ''2020_01_01-00_00_00'' ''0:00:01''
                    ''results/'' 10 2 0 Mapping.empty)))
       ''results/ga_dimen_2020_01_01-00_00_00.csv''
     = None"
  by (simp add: optimize_diameters_execs_def flaky_run_def list_getitem_def sample_individual_def
        Let_def numeral_2_eq_2)

section \<open>Catalog indices and the price lookup: claim C10\<close>

text \<open>
  Claim C10.  For a non-empty price catalog and an index list whose entries all lie in
  \<open>[0, |catalog|)\<close>, \<open>index2diam\<close> succeeds and every diameter of its result is a key of
  the catalog, so the lookup of its unit price succeeds; and \<open>network_diameters\<close>, which
  hands that list to \<open>network_cost\<close>, never fails with a \<open>KeyError\<close>.
\<close>

theorem index2diam_yields_catalog_keys:
  assumes "Mapping.keys pipe_price \<noteq> {}" and "finite (Mapping.keys pipe_price)"
    and "\<forall>x \<in> set diam_indexes. 0 \<le> x \<and> x < int (Mapping.size pipe_price)"
  shows "\<exists>d. index2diam diam_indexes pipe_price = Inr d
      \<and> length d = length diam_indexes
      \<and> set d \<subseteq> Mapping.keys pipe_price
      \<and> (\<forall>k \<in> set d. \<exists>price. dict_getitem pipe_price k = Inr price)
      \<and> (\<forall>e' network'.
            network_diameters em diam_indexes network pipe_price e
              \<noteq> Some (Inl KeyError, e', network'))"
proof -
  let ?keys = "Mapping.ordered_keys pipe_price"
  have len: "length ?keys = Mapping.size pipe_price"
    using assms(2) by (rule length_ordered_keys)
  have "\<forall>x \<in> set diam_indexes. \<exists>y. list_getitem ?keys x = Inr y"
    using assms(3) len by (auto simp: list_getitem_in_range)
  then obtain d where d: "list_comp (\<lambda>x. list_getitem ?keys x) diam_indexes = Inr d"
    using list_comp_Inr_exists by blast
  then have i2d: "index2diam diam_indexes pipe_price = Inr d"
    by (simp add: index2diam_def)
  have nth: "length d = length diam_indexes"
    "\<forall>p < length diam_indexes. list_getitem ?keys (diam_indexes ! p) = Inr (d ! p)"
    using list_comp_Inr_nth [OF d] by auto
  have sub: "set d \<subseteq> Mapping.keys pipe_price"
  proof
    fix k assume "k \<in> set d"
    then obtain p where "p < length d" "d ! p = k" by (auto simp: in_set_conv_nth)
    then have "list_getitem ?keys (diam_indexes ! p) = Inr k" using nth by auto
    then have "k \<in> set ?keys" by (rule list_getitem_member)
    then show "k \<in> Mapping.keys pipe_price" using assms(2) by simp
  qed
  have look: "\<forall>k \<in> set d. \<exists>price. dict_getitem pipe_price k = Inr price"
    using sub by (auto simp: dict_getitem_key)
  have "network_diameters em diam_indexes network pipe_price e \<noteq> Some (Inl KeyError, e', network')"
    for e' network'
    using sub i2d network_cost_KeyError [of em d network pipe_price Mapping.empty e e' network']
    by (auto simp: network_diameters_def)
  then show ?thesis using i2d nth(1) sub look by blast
qed

theorem index2diam_yields_catalog_keys_witness:
  "index2diam [2, 0, 1, 1] (Mapping.of_alist [(25, 2), (51, 5), (76, 8)] :: (int, int) mapping)
     = Inr [76, 25, 51, 51]
   \<and> set [76, 25, 51, 51] \<subseteq> Mapping.keys (Mapping.of_alist [(25, 2), (51, 5), (76, 8)] :: (int, int) mapping)
   \<and> (\<forall>e' network'.
         network_diameters (table_engine [1, 0, 0] [0, 50, 20] [1, 3] [10, 20]) [2, 0, 1, 1]
           (initialize (table_engine [1, 0, 0] [0, 50, 20] [1, 3] [10, 20])
              (Network ''data/'' ''TwoLoop.inp'') ([], [0, 0]))
           (Mapping.of_alist [(25, 2), (51, 5), (76, 8)]) ([], [0, 0])
         \<noteq> Some (Inl KeyError, e', network'))"
proof -
  let ?m = "Mapping.of_alist [(25, 2), (51, 5), (76, 8)] :: (int, int) mapping"
  have ne: "Mapping.keys ?m \<noteq> {}" by simp
  have fin: "finite (Mapping.keys ?m)" by simp
  have sz: "Mapping.size ?m = 3" by (simp add: Mapping.size_def)
  have rng: "\<forall>x \<in> set [2, 0, 1, 1]. 0 \<le> x \<and> x < int (Mapping.size ?m)"
    by (simp add: sz)
  have r: "index2diam [2, 0, 1, 1] ?m = Inr [76, 25, 51, 51]" by code_simp
  from index2diam_yields_catalog_keys [OF ne fin rng,
      of "table_engine [1, 0, 0] [0, 50, 20] [1, 3] [10, 20]"
         "initialize (table_engine [1, 0, 0] [0, 50, 20] [1, 3] [10, 20])
              (Network ''data/'' ''TwoLoop.inp'') ([], [0, 0])" "([], [0, 0])"] r
  show ?thesis by auto
qed

end
